theory Spec2Isabelle
  imports Complex_Main
begin

section \<open>Python values used by PDF_agent.py\<close>

text \<open>
  Strings are lists of 8-bit characters, read as the code points 0 to 255.
  Exceptions are values: every function that can raise returns \<open>error + 'a\<close>,
  with \<open>Inl\<close> the exception.
\<close>

datatype error =
    IndexError string
  | KeyError string
  | TypeError string
  | JSONDecodeError string
  | ServiceError string
  | NotADirectoryError string
  | FileNotFoundError string
  | EOFError string

fun str_error :: "error \<Rightarrow> string" where
  "str_error (IndexError m) = m"
| "str_error (KeyError m) = m"
| "str_error (TypeError m) = m"
| "str_error (JSONDecodeError m) = m"
| "str_error (ServiceError m) = m"
| "str_error (NotADirectoryError m) = m"
| "str_error (FileNotFoundError m) = m"
| "str_error (EOFError m) = m"

definition NL :: char where
  "NL = CHR 0x0A"

definition DQ :: char where
  "DQ = CHR 0x22"

definition SQ :: char where
  "SQ = CHR 0x27"

text \<open>\<open>str.isspace\<close> on the code points below 256.\<close>

definition isspace :: "char \<Rightarrow> bool" where
  "isspace c = ((of_char c :: nat) \<in> {9, 10, 11, 12, 13, 28, 29, 30, 31, 32, 133, 160})"

definition lstrip :: "string \<Rightarrow> string" where
  "lstrip s = dropWhile isspace s"

definition rstrip :: "string \<Rightarrow> string" where
  "rstrip s = rev (dropWhile isspace (rev s))"

definition strip :: "string \<Rightarrow> string" where
  "strip s = rstrip (lstrip s)"

definition startswith :: "string \<Rightarrow> string \<Rightarrow> bool" where
  "startswith s p = (take (length p) s = p)"

definition endswith :: "string \<Rightarrow> string \<Rightarrow> bool" where
  "endswith s p = (length p \<le> length s \<and> drop (length s - length p) s = p)"

text \<open>The slice \<open>s[3:-3]\<close>: empty when the string has fewer than six characters.\<close>

definition slice_3_m3 :: "string \<Rightarrow> string" where
  "slice_3_m3 s = drop 3 (take (length s - 3) s)"

fun py_join :: "string \<Rightarrow> string list \<Rightarrow> string" where
  "py_join sep [] = []"
| "py_join sep [x] = x"
| "py_join sep (x # y # ys) = x @ sep @ py_join sep (y # ys)"

text \<open>\<open>str.lower\<close> on the code points below 256: A to Z, and the capital
  letters 192 to 222 other than the multiplication sign 215.\<close>

definition lower_char :: "char \<Rightarrow> char" where
  "lower_char c =
     (let n = (of_char c :: nat)
      in if (65 \<le> n \<and> n \<le> 90) \<or> (192 \<le> n \<and> n \<le> 222 \<and> n \<noteq> 215)
         then char_of (n + 32) else c)"

definition lower :: "string \<Rightarrow> string" where
  "lower s = map lower_char s"

text \<open>\<open>xs[-1]\<close> raises IndexError on the empty list.\<close>

definition py_last :: "'a list \<Rightarrow> error + 'a" where
  "py_last xs = (if xs = [] then Inl (IndexError ''list index out of range'') else Inr (last xs))"

subsection \<open>What \<open>json.loads\<close> returns\<close>

datatype json =
    JNull
  | JBool bool
  | JInt int
  | JFloat real
  | JStr string
  | JArr "json list"
  | JObj "(string \<times> json) list"

text \<open>\<open>value[key]\<close> for a string key: only a dict can be subscripted by one.\<close>

fun getitem :: "json \<Rightarrow> string \<Rightarrow> error + json" where
  "getitem (JObj kvs) key =
     (case map_of kvs key of None \<Rightarrow> Inl (KeyError (SQ # key @ [SQ])) | Some v \<Rightarrow> Inr v)"
| "getitem v key = Inl (TypeError ''indices must be integers or object is not subscriptable'')"

text \<open>Truthiness, as \<open>or\<close> tests it.\<close>

fun truthy :: "json \<Rightarrow> bool" where
  "truthy JNull = False"
| "truthy (JBool b) = b"
| "truthy (JInt i) = (i \<noteq> 0)"
| "truthy (JFloat x) = (x \<noteq> 0)"
| "truthy (JStr s) = (s \<noteq> [])"
| "truthy (JArr xs) = (xs \<noteq> [])"
| "truthy (JObj kvs) = (kvs \<noteq> [])"

section \<open>Messages, documents and the world\<close>

datatype message = SystemMessage string | HumanMessage string | AIMessage string

fun content :: "message \<Rightarrow> string" where
  "content (SystemMessage c) = c"
| "content (HumanMessage c) = c"
| "content (AIMessage c) = c"

fun is_system :: "message \<Rightarrow> bool" where
  "is_system (SystemMessage c) = True"
| "is_system m = False"

record document =
  page_content :: string

record messages_state =
  messages :: "message list"

datatype node = File | Dir

text \<open>
  The state the script acts on: what it has printed, the requests the language model
  has answered, the checkpointer's history of every thread, and the entries of the
  file system (a path is the list of its components).
\<close>

record world =
  stdout :: string
  llm_requests :: "message list list"
  checkpoints :: "string \<rightharpoonup> message list"
  files :: "string list \<rightharpoonup> node"

definition py_print :: "string \<Rightarrow> world \<Rightarrow> world" where
  "py_print s w = w\<lparr>stdout := stdout w @ s @ [NL]\<rparr>"

text \<open>
  \<open>model.invoke(messages)\<close>. The language model is a service outside the script:
  its reply may depend on the request and on how many requests it has answered
  before, and it may fail.
\<close>

type_synonym chat_model = "nat \<Rightarrow> message list \<Rightarrow> error + string"

definition model_invoke :: "chat_model \<Rightarrow> message list \<Rightarrow> world \<Rightarrow> error + (message \<times> world)" where
  "model_invoke model msgs w =
     (case model (length (llm_requests w)) msgs of
        Inl e \<Rightarrow> Inl e
      | Inr reply \<Rightarrow> Inr (AIMessage reply, w\<lparr>llm_requests := llm_requests w @ [msgs]\<rparr>))"

section \<open>extract\_metadata\<close>

definition system_prompt :: string where
  "system_prompt =
     ''You are a metadata extraction assistant. Given a document, extract the following metadata:'' @ [NL] @
     ''    1. Date (if present)'' @ [NL] @
     ''    2. Author (if present)'' @ [NL] @
     ''    Return ONLY a JSON-like string in this exact format:'' @ [NL] @
     ''    {'' @ [DQ] @ ''date'' @ [DQ] @ '': '' @ [DQ] @ ''found_date or null'' @ [DQ] @ '', '' @
     [DQ] @ ''author'' @ [DQ] @ '': '' @ [DQ] @ ''found_author or null'' @ [DQ] @ ''}''"

definition fence :: string where
  "fence = [CHR 0x60, CHR 0x60, CHR 0x60]"

text \<open>Lines 43 to 45: the string handed to \<open>json.loads\<close>.\<close>

definition clean_json_str :: "string \<Rightarrow> string" where
  "clean_json_str reply =
     (let json_str = strip reply
      in if startswith json_str fence \<and> endswith json_str fence
         then strip (slice_3_m3 json_str) else json_str)"

definition null_metadata :: json where
  "null_metadata = JObj [(''date'', JNull), (''author'', JNull)]"

definition metadata_request :: "document \<Rightarrow> message list" where
  "metadata_request doc =
     [SystemMessage system_prompt,
      HumanMessage (''Extract metadata from this text:'' @ [NL, NL] @ page_content doc)]"

text \<open>
  The call of the model is before the \<open>try\<close>; the \<open>try\<close> holds the cleaning and
  \<open>json.loads\<close>, which is a parameter here (the standard library's decoder).
\<close>

definition extract_metadata ::
  "chat_model \<Rightarrow> (string \<Rightarrow> error + json) \<Rightarrow> document \<Rightarrow> world \<Rightarrow> error + (json \<times> world)" where
  "extract_metadata model json_loads doc w =
     (case model_invoke model (metadata_request doc) w of
        Inl e \<Rightarrow> Inl e
      | Inr (response, w1) \<Rightarrow>
          (case json_loads (clean_json_str (content response)) of
             Inr metadata \<Rightarrow> Inr (metadata, w1)
           | Inl e \<Rightarrow>
               Inr (null_metadata, py_print (''Error parsing metadata: '' @ str_error e) w1)))"

text \<open>
  Lines 178 to 182 of the main script. \<open>py_str\<close> is Python's \<open>str\<close> on the values
  \<open>json.loads\<close> returns.
\<close>

definition or_not_found :: "(json \<Rightarrow> string) \<Rightarrow> json \<Rightarrow> string" where
  "or_not_found py_str v = (if truthy v then py_str v else ''Not found'')"

definition show_metadata ::
  "chat_model \<Rightarrow> (string \<Rightarrow> error + json) \<Rightarrow> (json \<Rightarrow> string) \<Rightarrow> document list \<Rightarrow> world
     \<Rightarrow> error + world" where
  "show_metadata model json_loads py_str docs w =
     (if docs = [] then Inr w
      else case extract_metadata model json_loads (hd docs) w of
        Inl e \<Rightarrow> Inl e
      | Inr (metadata, w1) \<Rightarrow>
          (let w2 = py_print (NL # ''Document Metadata:'') w1
           in case getitem metadata ''date'' of
                Inl e \<Rightarrow> Inl e
              | Inr d \<Rightarrow>
                  (let w3 = py_print (''Date: '' @ or_not_found py_str d) w2
                   in case getitem metadata ''author'' of
                        Inl e \<Rightarrow> Inl e
                      | Inr a \<Rightarrow>
                          Inr (py_print (''Author: '' @ or_not_found py_str a @ [NL]) w3))))"

section \<open>reset\_vector\_store\<close>

text \<open>
  The file system holds regular files and directories, each under the list of its path
  components; a path string is split at its slashes (no \<open>.\<close> or \<open>..\<close> components,
  no symbolic links).
\<close>

fun split_path :: "string \<Rightarrow> string \<Rightarrow> string list" where
  "split_path cur [] = (if cur = [] then [] else [cur])"
| "split_path cur (c # cs) =
     (if c = CHR ''/'' then (if cur = [] then [] else [cur]) @ split_path [] cs
      else split_path (cur @ [c]) cs)"

definition components :: "string \<Rightarrow> string list" where
  "components path = split_path [] path"

definition under :: "string list \<Rightarrow> string list \<Rightarrow> bool" where
  "under d q = (take (length d) q = d)"

text \<open>\<open>os.path.exists\<close>: the empty path does not exist, and a regular file does not
  answer to a path with a trailing slash.\<close>

definition path_exists :: "string \<Rightarrow> world \<Rightarrow> bool" where
  "path_exists path w =
     (path \<noteq> [] \<and>
      (case files w (components path) of
         None \<Rightarrow> False
       | Some Dir \<Rightarrow> True
       | Some File \<Rightarrow> \<not> endswith path ''/''))"

text \<open>\<open>shutil.rmtree\<close>: removes the directory and everything below it; raises on a
  regular file and on a missing path.\<close>

definition rmtree :: "string \<Rightarrow> world \<Rightarrow> error + world" where
  "rmtree path w =
     (case files w (components path) of
        None \<Rightarrow> Inl (FileNotFoundError path)
      | Some File \<Rightarrow> Inl (NotADirectoryError path)
      | Some Dir \<Rightarrow>
          Inr (w\<lparr>files := (\<lambda>q. if under (components path) q then None else files w q)\<rparr>))"

definition reset_vector_store :: "string \<Rightarrow> world \<Rightarrow> error + world" where
  "reset_vector_store persist_directory w =
     (if path_exists persist_directory w then
        (case rmtree persist_directory w of
           Inl e \<Rightarrow> Inl e
         | Inr w1 \<Rightarrow>
             Inr (py_print (''Vector store at '' @ [SQ] @ persist_directory @ [SQ]
                            @ '' has been reset.'') w1))
      else
        Inr (py_print (''No existing vector store found at '' @ [SQ] @ persist_directory @ [SQ]
                       @ ''.'') w))"

section \<open>The chat system\<close>

text \<open>
  The vector store is the parameter \<open>vector_store\<close> of the source, used through one
  method: \<open>max_marginal_relevance_search(query, k, fetch_k, lambda_mult)\<close>, which may fail.
\<close>

type_synonym vector_store = "string \<Rightarrow> nat \<Rightarrow> nat \<Rightarrow> real \<Rightarrow> error + document list"

definition chat_prompt :: "string \<Rightarrow> string" where
  "chat_prompt context =
     ''You are a helpful assistant. Use both the conversation history '' @
     ''and the provided context to give accurate answers. '' @
     ''Context: '' @ context"

definition latest_msg :: "messages_state \<Rightarrow> error + string" where
  "latest_msg state =
     (if messages state \<noteq> [] then
        (case py_last (messages state) of Inl e \<Rightarrow> Inl e | Inr m \<Rightarrow> Inr (content m))
      else Inr [])"

definition create_augmented_response ::
  "chat_model \<Rightarrow> messages_state \<Rightarrow> vector_store \<Rightarrow> world \<Rightarrow> error + (message \<times> world)" where
  "create_augmented_response model state vector_store w =
     (case latest_msg state of
        Inl e \<Rightarrow> Inl e
      | Inr query \<Rightarrow>
          (case vector_store query 4 5 (8 / 10) of
             Inl e \<Rightarrow> Inl e
           | Inr results \<Rightarrow>
               (let context = py_join '' '' (map page_content results);
                    msgs = [SystemMessage (chat_prompt context)] @ messages state
                in model_invoke model msgs w)))"

text \<open>The compiled workflow is its one node; \<open>setup_chat_workflow\<close> gives it a new,
  empty \<open>MemorySaver\<close>.\<close>

type_synonym app = "messages_state \<Rightarrow> world \<Rightarrow> error + (message \<times> world)"

definition process_messages :: "chat_model \<Rightarrow> vector_store \<Rightarrow> app" where
  "process_messages model vector_store state w =
     create_augmented_response model state vector_store w"

definition setup_chat_workflow :: "chat_model \<Rightarrow> vector_store \<Rightarrow> world \<Rightarrow> app \<times> world" where
  "setup_chat_workflow model vector_store w =
     (process_messages model vector_store, w\<lparr>checkpoints := Map.empty\<rparr>)"

text \<open>
  Modelled from the spec: \<open>app.invoke\<close> is the graph library's, not under src/. The
  session store gives the history of a thread, empty when the thread is new (4.6); a
  turn appends the input to the history, runs the node on the whole history, appends the
  node's reply and stores the result; a failed turn fails entirely (4.5, steps a to f).
\<close>

definition history :: "world \<Rightarrow> string \<Rightarrow> message list" where
  "history w thread_id = (case checkpoints w thread_id of None \<Rightarrow> [] | Some h \<Rightarrow> h)"

definition app_invoke ::
  "app \<Rightarrow> message list \<Rightarrow> string \<Rightarrow> world \<Rightarrow> error + (messages_state \<times> world)" where
  "app_invoke app input thread_id w =
     (let state = \<lparr>messages = history w thread_id @ input\<rparr>
      in case app state w of
           Inl e \<Rightarrow> Inl e
         | Inr (response, w1) \<Rightarrow>
             (let final = \<lparr>messages = messages state @ [response]\<rparr>
              in Inr (final, w1\<lparr>checkpoints := (checkpoints w1)(thread_id \<mapsto> messages final)\<rparr>)))"

definition chat_with_memory :: "string \<Rightarrow> app \<Rightarrow> string \<Rightarrow> world \<Rightarrow> error + (string \<times> world)" where
  "chat_with_memory question app thread_id w =
     (case app_invoke app [HumanMessage question] thread_id w of
        Inl e \<Rightarrow> Inl e
      | Inr (response, w1) \<Rightarrow>
          (case py_last (messages response) of
             Inl e \<Rightarrow> Inl e
           | Inr m \<Rightarrow> Inr (content m, w1)))"

text \<open>
  The loop of the main script, over the lines that standard input still holds:
  \<open>input\<close> writes its prompt and raises EOFError when no line is left. The result is
  the lines left unread and the world.
\<close>

definition input_prompt :: string where
  "input_prompt = ''Enter a question (or type '' @ [SQ] @ ''exit'' @ [SQ] @ '' to quit): ''"

fun chat_loop :: "app \<Rightarrow> string \<Rightarrow> string list \<Rightarrow> world \<Rightarrow> error + (string list \<times> world)" where
  "chat_loop app thread_id [] w = Inl (EOFError ''EOF when reading a line'')"
| "chat_loop app thread_id (question # rest) w =
     (let w0 = w\<lparr>stdout := stdout w @ input_prompt\<rparr>
      in if lower question = ''exit'' then Inr (rest, w0)
         else (case chat_with_memory question app thread_id w0 of
                 Inl e \<Rightarrow> Inl e
               | Inr (response, w1) \<Rightarrow>
                   chat_loop app thread_id rest
                     (py_print (NL # ''Assistant: '' @ response @ [NL]) w1)))"

text \<open>\<open>N\<close> sequential turns on one thread: the calls of \<open>chat_with_memory\<close>, one
  after the other, with the replies they return.\<close>

fun chat_turns :: "app \<Rightarrow> string \<Rightarrow> string list \<Rightarrow> world \<Rightarrow> error + (string list \<times> world)" where
  "chat_turns app thread_id [] w = Inr ([], w)"
| "chat_turns app thread_id (question # rest) w =
     (case chat_with_memory question app thread_id w of
        Inl e \<Rightarrow> Inl e
      | Inr (response, w1) \<Rightarrow>
          (case chat_turns app thread_id rest w1 of
             Inl e \<Rightarrow> Inl e
           | Inr (responses, w2) \<Rightarrow> Inr (response # responses, w2)))"

text \<open>A history of user and assistant messages in turn, a user message first.\<close>

fun alternating :: "message list \<Rightarrow> bool" where
  "alternating [] = True"
| "alternating (HumanMessage q # AIMessage r # rest) = alternating rest"
| "alternating ms = False"

fun turn_messages :: "string list \<Rightarrow> string list \<Rightarrow> message list" where
  "turn_messages (q # qs) (r # rs) = HumanMessage q # AIMessage r # turn_messages qs rs"
| "turn_messages qs rs = []"


section \<open>Maximal marginal relevance\<close>

text \<open>
  Modelled from the spec: the search is the vector-store library's, not under src/.
  Section 4.3: from the pool fetched for the query, \<open>k\<close> passages are selected greedily;
  each step takes the candidate with the greatest
  \<open>lambda * relevance - (1 - lambda) * max_similarity\<close>, where \<open>max_similarity\<close> is the
  greatest similarity to a passage already selected (0 when none is), the earlier
  candidate of the pool wins a tie, and the output is in the order of selection.
  Scores are real numbers here.
\<close>

fun max_similarity :: "('a \<Rightarrow> 'a \<Rightarrow> real) \<Rightarrow> 'a \<Rightarrow> 'a list \<Rightarrow> real" where
  "max_similarity sim c [] = 0"
| "max_similarity sim c [s] = sim c s"
| "max_similarity sim c (s # t # ss) = max (sim c s) (max_similarity sim c (t # ss))"

definition mmr_score ::
  "real \<Rightarrow> ('a \<Rightarrow> real) \<Rightarrow> ('a \<Rightarrow> 'a \<Rightarrow> real) \<Rightarrow> 'a list \<Rightarrow> 'a \<Rightarrow> real" where
  "mmr_score lam rel sim selected c = lam * rel c - (1 - lam) * max_similarity sim c selected"

text \<open>One pass over the candidates in pool order: a later candidate replaces the best
  so far only when its score is strictly greater.\<close>

fun scan_best :: "('a \<Rightarrow> real) \<Rightarrow> 'a \<Rightarrow> 'a list \<Rightarrow> 'a" where
  "scan_best f best [] = best"
| "scan_best f best (c # cs) = scan_best f (if f best < f c then c else best) cs"

fun mmr_select ::
  "nat \<Rightarrow> real \<Rightarrow> ('a \<Rightarrow> real) \<Rightarrow> ('a \<Rightarrow> 'a \<Rightarrow> real) \<Rightarrow> 'a list \<Rightarrow> 'a list \<Rightarrow> 'a list" where
  "mmr_select 0 lam rel sim selected pool = selected"
| "mmr_select (Suc n) lam rel sim selected [] = selected"
| "mmr_select (Suc n) lam rel sim selected (c # cs) =
     (let best = scan_best (mmr_score lam rel sim selected) c cs
      in mmr_select n lam rel sim (selected @ [best]) (remove1 best (c # cs)))"

definition mmr ::
  "nat \<Rightarrow> real \<Rightarrow> ('a \<Rightarrow> real) \<Rightarrow> ('a \<Rightarrow> 'a \<Rightarrow> real) \<Rightarrow> 'a list \<Rightarrow> 'a list" where
  "mmr k lam rel sim pool = mmr_select k lam rel sim [] pool"

text \<open>The search as the chat system calls it: fetch the pool for the query, then select.\<close>

definition max_marginal_relevance_search ::
  "(string \<Rightarrow> nat \<Rightarrow> error + document list) \<Rightarrow> (string \<Rightarrow> document \<Rightarrow> real)
     \<Rightarrow> (document \<Rightarrow> document \<Rightarrow> real) \<Rightarrow> vector_store" where
  "max_marginal_relevance_search fetch relevance similarity query k fetch_k lambda_mult =
     (case fetch query fetch_k of
        Inl e \<Rightarrow> Inl e
      | Inr pool \<Rightarrow> Inr (mmr k lambda_mult (relevance query) similarity pool))"

text \<open>The candidates still in the pool after some have been selected.\<close>

definition remaining_after :: "'a list \<Rightarrow> 'a list \<Rightarrow> 'a list" where
  "remaining_after pool selected = foldl (\<lambda>r c. remove1 c r) pool selected"

text \<open>What a greedy step has to pick among the remaining candidates: a candidate of
  the greatest score, and the earliest of those in pool order.\<close>

definition greedy_pick :: "('a \<Rightarrow> real) \<Rightarrow> 'a list \<Rightarrow> 'a \<Rightarrow> bool" where
  "greedy_pick score remaining pick =
     (pick \<in> set remaining
      \<and> (\<forall>d\<in>set remaining. score d \<le> score pick)
      \<and> (\<exists>j<length remaining. remaining ! j = pick
            \<and> (\<forall>j'<j. score (remaining ! j') < score pick)))"

text \<open>The pure relevance ranking of a pool: by decreasing relevance, candidates of equal
  relevance in pool order.\<close>

definition relevance_ranking :: "('a \<Rightarrow> real) \<Rightarrow> 'a list \<Rightarrow> 'a list" where
  "relevance_ranking rel pool = sort_key (\<lambda>c. - rel c) pool"

section \<open>Concrete inputs for the closed theorems\<close>

definition world0 :: world where
  "world0 = \<lparr>stdout = [], llm_requests = [], checkpoints = Map.empty, files = Map.empty\<rparr>"

text \<open>A world with an index under \<open>data/chroma\<close> and a file beside it.\<close>

definition world_indexed :: world where
  "world_indexed =
     world0\<lparr>files := [[''data''] \<mapsto> Dir, [''data'', ''chroma''] \<mapsto> Dir,
                      [''data'', ''chroma'', ''chroma.sqlite3''] \<mapsto> File,
                      [''notes.txt''] \<mapsto> File]\<rparr>"

definition doc0 :: document where
  "doc0 = \<lparr>page_content = ''Motivation letter''\<rparr>"

definition sample_json :: string where
  "sample_json =
     ''{'' @ [DQ] @ ''date'' @ [DQ] @ '': '' @ [DQ] @ ''2024-01-01'' @ [DQ] @ '', '' @
     [DQ] @ ''author'' @ [DQ] @ '': '' @ [DQ] @ ''Ann'' @ [DQ] @ ''}''"

text \<open>
  A decoder for the closed theorems. It agrees with \<open>json.loads\<close> on the texts they
  use: the object \<open>sample_json\<close> decodes, the other texts they pass are not JSON.
\<close>

definition demo_json_loads :: "string \<Rightarrow> error + json" where
  "demo_json_loads s =
     (if s = sample_json then Inr (JObj [(''date'', JStr ''2024-01-01''), (''author'', JStr ''Ann'')])
      else Inl (JSONDecodeError ''Expecting value: line 1 column 1 (char 0)''))"

definition demo_py_str :: "json \<Rightarrow> string" where
  "demo_py_str v = (case v of JStr s \<Rightarrow> s | _ \<Rightarrow> ''?'')"

text \<open>Three language models: one answers in prose, one wraps the object in a plain
  fence, one fails.\<close>

definition prose_model :: chat_model where
  "prose_model n msgs = Inr ''I could not find any metadata.''"

definition fenced_model :: chat_model where
  "fenced_model n msgs = Inr ('' '' @ fence @ (NL # sample_json @ [NL]) @ fence @ [NL])"

definition failing_model :: chat_model where
  "failing_model n msgs = Inl (ServiceError ''Rate limit reached'')"

text \<open>Two more replies: the JSON text \<open>null\<close>, and the object in a fence whose
  opening marker carries the language tag \<open>json\<close>. The decoder below agrees with
  \<open>json.loads\<close> on \<open>null\<close> as well.\<close>

definition null_model :: chat_model where
  "null_model n msgs = Inr ''null''"

definition tagged_model :: chat_model where
  "tagged_model n msgs = Inr (fence @ ''json'' @ (NL # sample_json @ [NL]) @ fence)"

definition demo_json_loads_null :: "string \<Rightarrow> error + json" where
  "demo_json_loads_null s = (if s = ''null'' then Inr JNull else demo_json_loads s)"

text \<open>A pool of three passages: the first two are relevant and nearly the same, the
  third is less relevant and unlike both.\<close>

definition demo_rel :: "nat \<Rightarrow> real" where
  "demo_rel c = (if c = 0 then 9 / 10 else if c = 1 then 8 / 10 else 5 / 10)"

definition demo_sim :: "nat \<Rightarrow> nat \<Rightarrow> real" where
  "demo_sim a b = (if a = b then 1 else if a + b = 1 then 95 / 100 else 1 / 10)"

text \<open>A vector store that returns two passages for every query, a language model that
  answers every request, and the worlds the closed theorems of the chat system pass
  through.\<close>

definition demo_store :: vector_store where
  "demo_store query k fetch_k lambda_mult =
     Inr [\<lparr>page_content = ''Dear committee,''\<rparr>, \<lparr>page_content = ''Yours, Ann''\<rparr>]"

definition answering_model :: chat_model where
  "answering_model n msgs = Inr (if n = 0 then ''Ann wrote it.'' else ''In January.'')"


definition world_two_turns :: world where
  "world_two_turns =
     world0\<lparr>llm_requests :=
              [[SystemMessage (chat_prompt ''Dear committee, Yours, Ann''),
                HumanMessage ''Who wrote it?''],
               [SystemMessage (chat_prompt ''Dear committee, Yours, Ann''),
                HumanMessage ''Who wrote it?'', AIMessage ''Ann wrote it.'',
                HumanMessage ''When?'']],
            checkpoints :=
              [''user_session_1'' \<mapsto>
                 [HumanMessage ''Who wrote it?'', AIMessage ''Ann wrote it.'',
                  HumanMessage ''When?'', AIMessage ''In January.'']]\<rparr>"


section \<open>Verified properties\<close>

subsection \<open>extract\_metadata\<close>

lemma isspace_backtick: "\<not> isspace (CHR 0x60)"
  by (simp add: isspace_def)

lemma lstrip_ws:
  "\<forall>c\<in>set pre. isspace c \<Longrightarrow> \<not> isspace x \<Longrightarrow> lstrip (pre @ x # rest) = x # rest"
  by (simp add: lstrip_def dropWhile_append3)

lemma rstrip_ws:
  "\<forall>c\<in>set post. isspace c \<Longrightarrow> \<not> isspace x \<Longrightarrow> rstrip (front @ x # post) = front @ [x]"
  by (simp add: rstrip_def dropWhile_append3)

lemma strip_fenced:
  assumes "\<forall>c\<in>set pre. isspace c" "\<forall>c\<in>set post. isspace c"
  shows "strip (pre @ fence @ body @ fence @ post) = fence @ body @ fence"
proof -
  have a: "lstrip (pre @ fence @ body @ fence @ post) = fence @ body @ fence @ post"
    using lstrip_ws [OF assms(1) isspace_backtick] by (simp add: fence_def)
  have b: "rstrip ((fence @ body @ [CHR 0x60, CHR 0x60]) @ CHR 0x60 # post)
             = (fence @ body @ [CHR 0x60, CHR 0x60]) @ [CHR 0x60]"
    by (rule rstrip_ws [OF assms(2) isspace_backtick])
  have c: "(fence @ body @ [CHR 0x60, CHR 0x60]) @ CHR 0x60 # post = fence @ body @ fence @ post"
    by (simp add: fence_def)
  have d: "(fence @ body @ [CHR 0x60, CHR 0x60]) @ [CHR 0x60] = fence @ body @ fence"
    by (simp add: fence_def)
  show ?thesis unfolding strip_def a using b unfolding c d .
qed

lemma startswith_fenced: "startswith (fence @ body @ fence) fence"
  by (simp add: startswith_def)

lemma endswith_fenced: "endswith (fence @ body @ fence) fence"
  by (simp add: endswith_def)

lemma slice_fenced: "slice_3_m3 (fence @ body @ fence) = body"
  by (simp add: slice_3_m3_def fence_def)

lemma clean_fenced:
  assumes "\<forall>c\<in>set pre. isspace c" "\<forall>c\<in>set post. isspace c"
  shows "clean_json_str (pre @ fence @ body @ fence @ post) = strip body"
  by (simp add: clean_json_str_def strip_fenced [OF assms] startswith_fenced endswith_fenced
      slice_fenced)

text \<open>The extraction step, branch by branch.\<close>

lemma extract_metadata_model_fails:
  "model (length (llm_requests w)) (metadata_request doc) = Inl e
   \<Longrightarrow> extract_metadata model json_loads doc w = Inl e"
  by (simp add: extract_metadata_def model_invoke_def)

lemma extract_metadata_parsed:
  "model (length (llm_requests w)) (metadata_request doc) = Inr reply
   \<Longrightarrow> json_loads (clean_json_str reply) = Inr metadata
   \<Longrightarrow> extract_metadata model json_loads doc w =
         Inr (metadata, w\<lparr>llm_requests := llm_requests w @ [metadata_request doc]\<rparr>)"
  by (simp add: extract_metadata_def model_invoke_def)

lemma extract_metadata_unparsed:
  "model (length (llm_requests w)) (metadata_request doc) = Inr reply
   \<Longrightarrow> json_loads (clean_json_str reply) = Inl e
   \<Longrightarrow> extract_metadata model json_loads doc w =
         Inr (null_metadata,
              py_print (''Error parsing metadata: '' @ str_error e)
                (w\<lparr>llm_requests := llm_requests w @ [metadata_request doc]\<rparr>))"
  by (simp add: extract_metadata_def model_invoke_def)

lemma strip_sample: "strip (NL # sample_json @ [NL]) = sample_json"
  by (simp add: strip_def lstrip_def rstrip_def isspace_def NL_def sample_json_def DQ_def)

lemma clean_prose:
  "clean_json_str ''I could not find any metadata.'' = ''I could not find any metadata.''"
  by (simp add: clean_json_str_def strip_def lstrip_def rstrip_def isspace_def startswith_def
      fence_def)

lemma demo_json_loads_prose:
  "demo_json_loads (clean_json_str ''I could not find any metadata.'')
     = Inl (JSONDecodeError ''Expecting value: line 1 column 1 (char 0)'')"
  unfolding clean_prose by (simp add: demo_json_loads_def sample_json_def)

lemma prose_model_reply:
  "prose_model (length (llm_requests world0)) (metadata_request doc0)
     = Inr ''I could not find any metadata.''"
  by (simp add: prose_model_def)

lemma clean_null: "clean_json_str ''null'' = ''null''"
  by (simp add: clean_json_str_def strip_def lstrip_def rstrip_def isspace_def startswith_def
      fence_def)

lemma null_reply_extracted:
  "extract_metadata null_model demo_json_loads_null doc0 world0
     = Inr (JNull, world0\<lparr>llm_requests := [metadata_request doc0]\<rparr>)"
  by (simp add: extract_metadata_def model_invoke_def null_model_def clean_null
      demo_json_loads_null_def world0_def)

text \<open>
  C5, as the claim states it, fails: a reply that is valid JSON but not the expected
  object does not parse as that object, and yet nothing is reported and no null fields
  are returned. The reply \<open>null\<close> is returned decoded, as \<open>None\<close>, with nothing
  printed, and the main script then raises when it reads the field \<open>date\<close>.
\<close>

theorem unexpected_json_is_returned_unreported:
  "extract_metadata null_model demo_json_loads_null doc0 world0
     = Inr (JNull, world0\<lparr>llm_requests := [metadata_request doc0]\<rparr>)
   \<and> JNull \<noteq> null_metadata
   \<and> stdout (world0\<lparr>llm_requests := [metadata_request doc0]\<rparr>) = []
   \<and> show_metadata null_model demo_json_loads_null demo_py_str [doc0] world0
     = Inl (TypeError ''indices must be integers or object is not subscriptable'')"
proof (intro conjI)
  show "extract_metadata null_model demo_json_loads_null doc0 world0
     = Inr (JNull, world0\<lparr>llm_requests := [metadata_request doc0]\<rparr>)"
    by (rule null_reply_extracted)
  show "JNull \<noteq> null_metadata" by (simp add: null_metadata_def)
  show "stdout (world0\<lparr>llm_requests := [metadata_request doc0]\<rparr>) = []"
    by (simp add: world0_def)
  show "show_metadata null_model demo_json_loads_null demo_py_str [doc0] world0
     = Inl (TypeError ''indices must be integers or object is not subscriptable'')"
    unfolding show_metadata_def by (simp add: null_reply_extracted)
qed

text \<open>
  C5, amended. When the model has replied and \<open>json.loads\<close> raises on the cleaned
  reply, the extractor returns the dict with \<open>date\<close> and \<open>author\<close> both \<open>None\<close> and
  prints \<open>Error parsing metadata:\<close> with the exception's text; when \<open>json.loads\<close>
  returns a value, of whatever shape, the extractor returns that value and prints
  nothing; in neither case does it raise.
\<close>

theorem extract_metadata_fails_soft_on_decode_error:
  assumes "model (length (llm_requests w)) (metadata_request doc) = Inr reply"
  shows "(json_loads (clean_json_str reply) = Inl e
            \<longrightarrow> extract_metadata model json_loads doc w =
                  Inr (null_metadata,
                       py_print (''Error parsing metadata: '' @ str_error e)
                         (w\<lparr>llm_requests := llm_requests w @ [metadata_request doc]\<rparr>)))
       \<and> (json_loads (clean_json_str reply) = Inr v
            \<longrightarrow> extract_metadata model json_loads doc w =
                  Inr (v, w\<lparr>llm_requests := llm_requests w @ [metadata_request doc]\<rparr>))
       \<and> extract_metadata model json_loads doc w \<noteq> Inl e'"
  using assms by (auto simp: extract_metadata_def model_invoke_def split: sum.splits)

lemma fenced_model_reply:
  "fenced_model (length (llm_requests world0)) (metadata_request doc0)
     = Inr ('' '' @ fence @ (NL # sample_json @ [NL]) @ fence @ [NL])"
  by (simp add: fenced_model_def)

lemma demo_json_loads_fenced:
  "demo_json_loads (clean_json_str ('' '' @ fence @ (NL # sample_json @ [NL]) @ fence @ [NL]))
     = Inr (JObj [(''date'', JStr ''2024-01-01''), (''author'', JStr ''Ann'')])"
proof -
  have pre: "\<forall>c\<in>set '' ''. isspace c" by (simp add: isspace_def)
  have post: "\<forall>c\<in>set [NL]. isspace c" by (simp add: isspace_def NL_def)
  show ?thesis
    unfolding clean_fenced [OF pre post] strip_sample by (simp add: demo_json_loads_def)
qed

theorem extract_metadata_fails_soft_on_decode_error_witness:
  "extract_metadata prose_model demo_json_loads doc0 world0 =
       Inr (null_metadata,
            py_print (''Error parsing metadata: Expecting value: line 1 column 1 (char 0)'')
              (world0\<lparr>llm_requests := [metadata_request doc0]\<rparr>))
   \<and> extract_metadata fenced_model demo_json_loads doc0 world0 =
       Inr (JObj [(''date'', JStr ''2024-01-01''), (''author'', JStr ''Ann'')],
            world0\<lparr>llm_requests := [metadata_request doc0]\<rparr>)"
  using extract_metadata_fails_soft_on_decode_error [where model = prose_model and w = world0
      and doc = doc0 and json_loads = demo_json_loads
      and reply = "''I could not find any metadata.''"
      and e = "JSONDecodeError ''Expecting value: line 1 column 1 (char 0)''"
      and v = JNull and e' = "ServiceError ''x''", OF prose_model_reply]
    extract_metadata_fails_soft_on_decode_error [where model = fenced_model and w = world0
      and doc = doc0 and json_loads = demo_json_loads
      and reply = "'' '' @ fence @ (NL # sample_json @ [NL]) @ fence @ [NL]"
      and e = "ServiceError ''x''"
      and v = "JObj [(''date'', JStr ''2024-01-01''), (''author'', JStr ''Ann'')]"
      and e' = "ServiceError ''x''", OF fenced_model_reply]
    demo_json_loads_prose demo_json_loads_fenced
  by (simp add: world0_def)

text \<open>
  C6, as the claim states it, fails: the call of the model is outside the \<open>try\<close>, so
  when the language model fails the exception leaves \<open>extract_metadata\<close>, and the main
  script prints no field at all.
\<close>

theorem model_failure_leaves_extract_metadata:
  "extract_metadata failing_model demo_json_loads doc0 world0
     = Inl (ServiceError ''Rate limit reached'')
   \<and> show_metadata failing_model demo_json_loads demo_py_str [doc0] world0
     = Inl (ServiceError ''Rate limit reached'')"
  by (simp add: show_metadata_def extract_metadata_model_fails failing_model_def)

text \<open>
  C6, amended. The only exception that leaves the extraction step is a failure of the
  language-model call itself; an exception raised while the reply is cleaned and decoded
  is recovered inside the step, and the main script then shows both fields as
  \<open>Not found\<close>.
\<close>

theorem extract_metadata_recovers_parse_errors_only:
  "(extract_metadata model json_loads doc w = Inl e
      \<longleftrightarrow> model (length (llm_requests w)) (metadata_request doc) = Inl e)
   \<and> (model (length (llm_requests w)) (metadata_request doc) = Inr reply
        \<longrightarrow> json_loads (clean_json_str reply) = Inl e'
        \<longrightarrow> show_metadata model json_loads py_str (doc # docs) w =
              Inr (py_print (''Author: Not found'' @ [NL])
                    (py_print ''Date: Not found''
                      (py_print (NL # ''Document Metadata:'')
                        (py_print (''Error parsing metadata: '' @ str_error e')
                          (w\<lparr>llm_requests := llm_requests w @ [metadata_request doc]\<rparr>))))))"
proof (intro conjI impI)
  show "extract_metadata model json_loads doc w = Inl e
      \<longleftrightarrow> model (length (llm_requests w)) (metadata_request doc) = Inl e"
    by (auto simp: extract_metadata_def model_invoke_def split: sum.splits)
next
  assume "model (length (llm_requests w)) (metadata_request doc) = Inr reply"
    and "json_loads (clean_json_str reply) = Inl e'"
  then show "show_metadata model json_loads py_str (doc # docs) w =
              Inr (py_print (''Author: Not found'' @ [NL])
                    (py_print ''Date: Not found''
                      (py_print (NL # ''Document Metadata:'')
                        (py_print (''Error parsing metadata: '' @ str_error e')
                          (w\<lparr>llm_requests := llm_requests w @ [metadata_request doc]\<rparr>)))))"
    by (simp add: show_metadata_def extract_metadata_unparsed null_metadata_def or_not_found_def)
qed

theorem extract_metadata_recovers_parse_errors_only_witness:
  "show_metadata prose_model demo_json_loads demo_py_str [doc0] world0 =
     Inr (py_print (''Author: Not found'' @ [NL])
           (py_print ''Date: Not found''
             (py_print (NL # ''Document Metadata:'')
               (py_print ''Error parsing metadata: Expecting value: line 1 column 1 (char 0)''
                 (world0\<lparr>llm_requests := [metadata_request doc0]\<rparr>)))))
   \<and> extract_metadata prose_model demo_json_loads doc0 world0 \<noteq> Inl (ServiceError ''x'')"
  using extract_metadata_recovers_parse_errors_only [where model = prose_model and w = world0
      and doc = doc0 and json_loads = demo_json_loads and py_str = demo_py_str and docs = "[]"
      and reply = "''I could not find any metadata.''" and e = "ServiceError ''x''"
      and e' = "JSONDecodeError ''Expecting value: line 1 column 1 (char 0)''"]
    prose_model_reply demo_json_loads_prose
  by (simp add: world0_def)

text \<open>
  A fence of three backticks at each end, with nothing but white space between the
  markers and the object, is stripped: the decoded object is returned and nothing is
  printed.
\<close>

lemma plain_fence_is_stripped:
  assumes "model (length (llm_requests w)) (metadata_request doc)
             = Inr (pre @ fence @ body @ fence @ post)"
      and "\<forall>c\<in>set pre. isspace c" and "\<forall>c\<in>set post. isspace c"
      and "json_loads (strip body) = Inr metadata"
  shows "extract_metadata model json_loads doc w =
           Inr (metadata, w\<lparr>llm_requests := llm_requests w @ [metadata_request doc]\<rparr>)"
  using assms(1) assms(4) clean_fenced [OF assms(2) assms(3), of body]
  by (simp add: extract_metadata_parsed)

lemma strip_tagged:
  "strip (''json'' @ (NL # sample_json @ [NL])) = ''json'' @ NL # sample_json"
  by (simp add: strip_def lstrip_def rstrip_def isspace_def NL_def sample_json_def DQ_def)

lemma clean_tagged:
  "clean_json_str (fence @ ''json'' @ (NL # sample_json @ [NL]) @ fence)
     = ''json'' @ NL # sample_json"
proof -
  have e: "\<forall>c\<in>set ([] :: string). isspace c" by simp
  have "clean_json_str ([] @ fence @ (''json'' @ (NL # sample_json @ [NL])) @ fence @ [])
          = strip (''json'' @ (NL # sample_json @ [NL]))"
    by (rule clean_fenced [OF e e])
  then show ?thesis unfolding strip_tagged by simp
qed

text \<open>
  C7 does not hold of the code when the opening marker carries a language tag. The reply
  is the well-formed object \<open>sample_json\<close> between the markers \<open>```json\<close> and
  \<open>```\<close>: the slice \<open>[3:-3]\<close> removes the backticks and leaves the tag, so the text
  handed to \<open>json.loads\<close> is \<open>json\<close>, a line break and the object; \<open>json.loads\<close>
  raises on it and the extractor returns the null fields, although the object alone
  decodes.
\<close>

theorem tagged_fence_takes_null_fallback:
  "clean_json_str (fence @ ''json'' @ (NL # sample_json @ [NL]) @ fence)
     = ''json'' @ NL # sample_json
   \<and> demo_json_loads sample_json
     = Inr (JObj [(''date'', JStr ''2024-01-01''), (''author'', JStr ''Ann'')])
   \<and> extract_metadata tagged_model demo_json_loads doc0 world0
     = Inr (null_metadata,
            py_print ''Error parsing metadata: Expecting value: line 1 column 1 (char 0)''
              (world0\<lparr>llm_requests := [metadata_request doc0]\<rparr>))"
proof (intro conjI)
  show "clean_json_str (fence @ ''json'' @ (NL # sample_json @ [NL]) @ fence)
     = ''json'' @ NL # sample_json" by (rule clean_tagged)
  show "demo_json_loads sample_json
     = Inr (JObj [(''date'', JStr ''2024-01-01''), (''author'', JStr ''Ann'')])"
    by (simp add: demo_json_loads_def)
  have m: "tagged_model (length (llm_requests world0)) (metadata_request doc0)
             = Inr (fence @ ''json'' @ (NL # sample_json @ [NL]) @ fence)"
    by (simp add: tagged_model_def)
  have p: "demo_json_loads (clean_json_str (fence @ ''json'' @ (NL # sample_json @ [NL]) @ fence))
          = Inl (JSONDecodeError ''Expecting value: line 1 column 1 (char 0)'')"
    unfolding clean_tagged by (simp add: demo_json_loads_def sample_json_def)
  show "extract_metadata tagged_model demo_json_loads doc0 world0
     = Inr (null_metadata,
            py_print ''Error parsing metadata: Expecting value: line 1 column 1 (char 0)''
              (world0\<lparr>llm_requests := [metadata_request doc0]\<rparr>))"
    using extract_metadata_unparsed [where model = tagged_model and w = world0 and doc = doc0
        and json_loads = demo_json_loads
        and reply = "fence @ ''json'' @ (NL # sample_json @ [NL]) @ fence"
        and e = "JSONDecodeError ''Expecting value: line 1 column 1 (char 0)''", OF m p]
    by (simp add: world0_def)
qed

subsection \<open>reset\_vector\_store\<close>

lemma components_chroma: "components ''data/chroma/'' = [''data'', ''chroma'']"
  by (simp add: components_def)

lemma under_refl: "under d d"
  by (simp add: under_def)

lemma reset_dir:
  assumes "path_exists p w" and "files w (components p) = Some Dir"
  shows "reset_vector_store p w =
           Inr (py_print (''Vector store at '' @ [SQ] @ p @ [SQ] @ '' has been reset.'')
                  (w\<lparr>files := (\<lambda>q. if under (components p) q then None else files w q)\<rparr>))"
  using assms by (simp add: reset_vector_store_def rmtree_def)

lemma reset_absent:
  assumes "\<not> path_exists p w"
  shows "reset_vector_store p w =
           Inr (py_print (''No existing vector store found at '' @ [SQ] @ p @ [SQ] @ ''.'') w)"
  using assms by (simp add: reset_vector_store_def)

lemma files_py_print: "files (py_print s w) = files w"
  by (simp add: py_print_def)

lemma path_exists_files: "files w1 = files w2 \<Longrightarrow> path_exists p w1 = path_exists p w2"
  by (simp add: path_exists_def)

lemma reset_ok_cases:
  assumes "reset_vector_store p w = Inr w1"
  shows "\<not> path_exists p w1"
proof (cases "path_exists p w")
  case False
  then have "w1 = py_print (''No existing vector store found at '' @ [SQ] @ p @ [SQ] @ ''.'') w"
    using assms by (simp add: reset_absent)
  then have "files w1 = files w" by (simp add: files_py_print)
  then show ?thesis using False path_exists_files by blast
next
  case True
  then have "files w1 (components p) = None"
    using assms
    by (auto simp: reset_vector_store_def rmtree_def files_py_print under_refl
        split: option.splits node.splits sum.splits)
  then show ?thesis by (simp add: path_exists_def)
qed

text \<open>
  C8. When the storage location is a directory, reset removes it and everything below
  it and leaves the rest of the file system alone; when the location does not exist,
  reset changes nothing in the file system and raises nothing; and a reset that has
  completed, run again, completes and leaves the file system as the first one left it.
\<close>

theorem reset_vector_store_idempotent:
  "(path_exists p w \<longrightarrow> files w (components p) = Some Dir \<longrightarrow>
      (\<exists>w1. reset_vector_store p w = Inr w1
         \<and> (\<forall>q. files w1 q = (if under (components p) q then None else files w q))))
   \<and> (\<not> path_exists p w \<longrightarrow>
      (\<exists>w1. reset_vector_store p w = Inr w1 \<and> files w1 = files w))
   \<and> (\<forall>w1. reset_vector_store p w = Inr w1 \<longrightarrow>
      (\<exists>w2. reset_vector_store p w1 = Inr w2 \<and> files w2 = files w1))"
proof (intro conjI impI allI)
  assume "path_exists p w" "files w (components p) = Some Dir"
  then show "\<exists>w1. reset_vector_store p w = Inr w1
         \<and> (\<forall>q. files w1 q = (if under (components p) q then None else files w q))"
    by (simp add: reset_dir files_py_print)
next
  assume "\<not> path_exists p w"
  then show "\<exists>w1. reset_vector_store p w = Inr w1 \<and> files w1 = files w"
    by (simp add: reset_absent files_py_print)
next
  fix w1 assume "reset_vector_store p w = Inr w1"
  then have "\<not> path_exists p w1" by (rule reset_ok_cases)
  then show "\<exists>w2. reset_vector_store p w1 = Inr w2 \<and> files w2 = files w1"
    by (simp add: reset_absent files_py_print)
qed

lemma chroma_exists: "path_exists ''data/chroma/'' world_indexed"
  by (simp add: path_exists_def components_chroma world_indexed_def world0_def)


lemma chroma_is_dir: "files world_indexed (components ''data/chroma/'') = Some Dir"
  by (simp add: components_chroma world_indexed_def world0_def)

theorem reset_vector_store_idempotent_witness:
  "\<exists>w1. reset_vector_store ''data/chroma/'' world_indexed = Inr w1
      \<and> files w1 [''data'', ''chroma''] = None
      \<and> files w1 [''data'', ''chroma'', ''chroma.sqlite3''] = None
      \<and> files w1 [''data''] = Some Dir
      \<and> files w1 [''notes.txt''] = Some File
      \<and> (\<exists>w2. reset_vector_store ''data/chroma/'' w1 = Inr w2 \<and> files w2 = files w1)"
proof -
  obtain w1 where 1: "reset_vector_store ''data/chroma/'' world_indexed = Inr w1"
    and 2: "\<forall>q. files w1 q
              = (if under (components ''data/chroma/'') q then None else files world_indexed q)"
    using reset_vector_store_idempotent [of "''data/chroma/''" world_indexed] chroma_exists chroma_is_dir
    by blast
  obtain w2 where 3: "reset_vector_store ''data/chroma/'' w1 = Inr w2" "files w2 = files w1"
    using reset_vector_store_idempotent [of "''data/chroma/''" world_indexed] 1 by blast
  have "files w1 [''data'', ''chroma''] = None"
    "files w1 [''data'', ''chroma'', ''chroma.sqlite3''] = None"
    "files w1 [''data''] = Some Dir"
    "files w1 [''notes.txt''] = Some File"
    using 2 by (simp_all add: components_chroma under_def world_indexed_def world0_def)
  then show ?thesis using 1 3 by blast
qed

subsection \<open>Maximal marginal relevance\<close>

lemma scan_best_unfold:
  "scan_best f b (c # cs) = (let m = scan_best f c cs in if f b < f m then m else b)"
proof (induction cs arbitrary: b c)
  case Nil
  then show ?case by simp
next
  case (Cons d ds)
  have "scan_best f b (c # d # ds) = scan_best f (if f b < f c then c else b) (d # ds)"
    by simp
  also have "\<dots> = (let m = scan_best f d ds
                   in if f (if f b < f c then c else b) < f m then m
                      else (if f b < f c then c else b))"
    by (rule Cons.IH)
  finally show ?case
    using Cons.IH [of c d] by (auto simp: Let_def)
qed

lemma scan_best_mem: "scan_best f b cs \<in> set (b # cs)"
  by (induction cs arbitrary: b) (auto simp del: scan_best.simps(2) simp: scan_best_unfold Let_def)

lemma scan_best_max: "d \<in> set (b # cs) \<Longrightarrow> f d \<le> f (scan_best f b cs)"
proof (induction cs arbitrary: b d)
  case Nil
  then show ?case by simp
next
  case (Cons c cs)
  show ?case
  proof (cases "d = b")
    case True
    then show ?thesis by (simp del: scan_best.simps(2) add: scan_best_unfold Let_def)
  next
    case False
    then have "d \<in> set (c # cs)" using Cons.prems by simp
    then have "f d \<le> f (scan_best f c cs)" by (rule Cons.IH)
    then show ?thesis by (auto simp del: scan_best.simps(2) simp: scan_best_unfold Let_def)
  qed
qed

lemma scan_best_first:
  "\<exists>j<length (b # cs). (b # cs) ! j = scan_best f b cs
      \<and> (\<forall>j'<j. f ((b # cs) ! j') < f (scan_best f b cs))"
proof (induction cs arbitrary: b)
  case Nil
  then show ?case by simp
next
  case (Cons c cs)
  obtain j where j: "j < length (c # cs)" "(c # cs) ! j = scan_best f c cs"
    "\<forall>j'<j. f ((c # cs) ! j') < f (scan_best f c cs)"
    using Cons.IH [of c] by blast
  show ?case
  proof (cases "f b < f (scan_best f c cs)")
    case True
    then have best: "scan_best f b (c # cs) = scan_best f c cs"
      by (simp del: scan_best.simps(2) add: scan_best_unfold Let_def)
    have "\<forall>j'<Suc j. f ((b # c # cs) ! j') < f (scan_best f c cs)"
    proof (intro allI impI)
      fix j' assume "j' < Suc j"
      then show "f ((b # c # cs) ! j') < f (scan_best f c cs)"
        using True j(3) by (cases j') auto
    qed
    then show ?thesis using j(1,2) best
      by (intro exI [of _ "Suc j"]) simp
  next
    case False
    then have "scan_best f b (c # cs) = b"
      by (simp del: scan_best.simps(2) add: scan_best_unfold Let_def)
    then show ?thesis by (intro exI [of _ 0]) simp
  qed
qed

lemma sort_key_scan_best:
  "sort_key (\<lambda>c. - rel c) (b # cs)
     = scan_best rel b cs # sort_key (\<lambda>c. - rel c) (remove1 (scan_best rel b cs) (b # cs))"
proof (induction cs arbitrary: b)
  case Nil
  then show ?case by simp
next
  case (Cons c cs)
  let ?g = "\<lambda>c. - rel c"
  let ?m = "scan_best rel c cs"
  have IH: "sort_key ?g (c # cs) = ?m # sort_key ?g (remove1 ?m (c # cs))"
    by (rule Cons.IH)
  show ?case
  proof (cases "rel b < rel ?m")
    case True
    then have best: "scan_best rel b (c # cs) = ?m"
      by (simp del: scan_best.simps(2) add: scan_best_unfold Let_def)
    have ne: "b \<noteq> ?m" using True by auto
    have "sort_key ?g (b # c # cs) = insort_key ?g b (?m # sort_key ?g (remove1 ?m (c # cs)))"
      using IH by simp
    also have "\<dots> = ?m # insort_key ?g b (sort_key ?g (remove1 ?m (c # cs)))"
      using True by simp
    also have "\<dots> = ?m # sort_key ?g (remove1 ?m (b # c # cs))"
      using ne by simp
    finally show ?thesis unfolding best .
  next
    case False
    then have best: "scan_best rel b (c # cs) = b"
      by (simp del: scan_best.simps(2) add: scan_best_unfold Let_def)
    have "sort_key ?g (b # c # cs) = insort_key ?g b (?m # sort_key ?g (remove1 ?m (c # cs)))"
      using IH by simp
    also have "\<dots> = b # ?m # sort_key ?g (remove1 ?m (c # cs))"
      using False by simp
    also have "\<dots> = b # sort_key ?g (c # cs)"
      using IH by simp
    finally show ?thesis unfolding best by simp
  qed
qed

lemma mmr_score_lambda_one: "mmr_score 1 rel sim selected = rel"
  by (rule ext) (simp add: mmr_score_def)

lemma mmr_select_lambda_one:
  "mmr_select n 1 rel sim selected pool = selected @ take n (sort_key (\<lambda>c. - rel c) pool)"
proof (induction n arbitrary: selected pool)
  case 0
  then show ?case by simp
next
  case (Suc n)
  show ?case
  proof (cases pool)
    case Nil
    then show ?thesis by simp
  next
    case (Cons c cs)
    let ?best = "scan_best rel c cs"
    have "mmr_select (Suc n) 1 rel sim selected (c # cs)
            = mmr_select n 1 rel sim (selected @ [?best]) (remove1 ?best (c # cs))"
      by (simp add: mmr_score_lambda_one Let_def)
    also have "\<dots> = (selected @ [?best])
                      @ take n (sort_key (\<lambda>c. - rel c) (remove1 ?best (c # cs)))"
      by (rule Suc.IH)
    also have "\<dots> = selected @ take (Suc n) (sort_key (\<lambda>c. - rel c) (c # cs))"
      by (subst sort_key_scan_best [of rel c cs]) simp
    finally show ?thesis using Cons by simp
  qed
qed

lemma scan_best_greedy: "greedy_pick f (b # cs) (scan_best f b cs)"
  unfolding greedy_pick_def
  using scan_best_mem [of f b cs] scan_best_max [of _ b cs f] scan_best_first [of b cs f]
  by blast

lemma mmr_select_shape:
  "\<exists>picks. mmr_select n lam rel sim selected pool = selected @ picks
      \<and> length picks = min n (length pool)"
proof (induction n arbitrary: selected pool)
  case 0
  then show ?case by simp
next
  case (Suc n)
  show ?case
  proof (cases pool)
    case Nil
    then show ?thesis by simp
  next
    case (Cons c cs)
    let ?best = "scan_best (mmr_score lam rel sim selected) c cs"
    obtain picks where p: "mmr_select n lam rel sim (selected @ [?best]) (remove1 ?best (c # cs))
                             = (selected @ [?best]) @ picks"
      "length picks = min n (length (remove1 ?best (c # cs)))"
      using Suc.IH by blast
    have "length (remove1 ?best (c # cs)) = length (c # cs) - 1"
      using scan_best_mem [of "mmr_score lam rel sim selected" c cs]
      by (simp only: length_remove1 if_True)
    then have "length (remove1 ?best (c # cs)) = length cs" by simp
    then have "length (?best # picks) = min (Suc n) (length (c # cs))"
      using p(2) by simp
    moreover have "mmr_select (Suc n) lam rel sim selected (c # cs) = selected @ ?best # picks"
      using p(1) by (simp add: Let_def)
    ultimately show ?thesis using Cons by blast
  qed
qed

lemma mmr_select_greedy:
  assumes "length selected \<le> i" and "i < length (mmr_select n lam rel sim selected pool)"
  shows "greedy_pick
           (mmr_score lam rel sim (take i (mmr_select n lam rel sim selected pool)))
           (remaining_after pool
              (drop (length selected) (take i (mmr_select n lam rel sim selected pool))))
           (mmr_select n lam rel sim selected pool ! i)"
  using assms
proof (induction n arbitrary: selected pool)
  case 0
  then show ?case by simp
next
  case (Suc n)
  show ?case
  proof (cases pool)
    case Nil
    then show ?thesis using Suc.prems by simp
  next
    case (Cons c cs)
    let ?best = "scan_best (mmr_score lam rel sim selected) c cs"
    let ?out = "mmr_select n lam rel sim (selected @ [?best]) (remove1 ?best (c # cs))"
    have out: "mmr_select (Suc n) lam rel sim selected pool = ?out"
      using Cons by (simp add: Let_def)
    obtain picks where picks: "?out = selected @ ?best # picks"
      using mmr_select_shape [of n lam rel sim "selected @ [?best]" "remove1 ?best (c # cs)"]
      by auto
    show ?thesis
    proof (cases "i = length selected")
      case True
      have "take i ?out = selected" using True picks by simp
      moreover have "?out ! i = ?best" using True picks by simp
      ultimately show ?thesis
        unfolding out using Cons scan_best_greedy [of "mmr_score lam rel sim selected" c cs]
        by (simp add: remaining_after_def)
    next
      case False
      then have gt: "length (selected @ [?best]) \<le> i" using Suc.prems(1) by simp
      have lt: "i < length ?out" using Suc.prems(2) out by simp
      have IH: "greedy_pick (mmr_score lam rel sim (take i ?out))
                  (remaining_after (remove1 ?best (c # cs))
                     (drop (length (selected @ [?best])) (take i ?out)))
                  (?out ! i)"
        by (rule Suc.IH [OF gt lt])
      have "drop (length selected) (take i ?out)
              = ?best # drop (length (selected @ [?best])) (take i ?out)"
        using gt picks by (simp add: Suc_diff_le take_Cons' drop_Cons')
      then have "remaining_after pool (drop (length selected) (take i ?out))
                   = remaining_after (remove1 ?best (c # cs))
                       (drop (length (selected @ [?best])) (take i ?out))"
        using Cons by (simp add: remaining_after_def)
      then show ?thesis unfolding out using IH by simp
    qed
  qed
qed

text \<open>
  C1. For every pool, \<open>k\<close> and \<open>lambda\<close> the output is built by greedy selection: the
  passage at each position of the output is, among the candidates of the pool not
  selected before it, one maximizing
  \<open>lambda * relevance - (1 - lambda) * max_similarity\<close> against the passages selected
  before it, and the earliest such candidate in pool order; the output is in selection
  order and has \<open>min k (length pool)\<close> passages; with nothing selected the penalty is 0, so
  the score of the first pick is \<open>lambda * relevance\<close>.
\<close>

theorem mmr_is_greedy_selection:
  "(\<forall>i<length (mmr k lam rel sim pool).
      greedy_pick (mmr_score lam rel sim (take i (mmr k lam rel sim pool)))
        (remaining_after pool (take i (mmr k lam rel sim pool)))
        (mmr k lam rel sim pool ! i))
   \<and> length (mmr k lam rel sim pool) = min k (length pool)
   \<and> mmr_score lam rel sim [] c = lam * rel c"
proof (intro conjI allI impI)
  fix i assume "i < length (mmr k lam rel sim pool)"
  then show "greedy_pick (mmr_score lam rel sim (take i (mmr k lam rel sim pool)))
        (remaining_after pool (take i (mmr k lam rel sim pool)))
        (mmr k lam rel sim pool ! i)"
    using mmr_select_greedy [of "[]" i k lam rel sim pool] by (simp add: mmr_def)
next
  show "length (mmr k lam rel sim pool) = min k (length pool)"
    using mmr_select_shape [of k lam rel sim "[]" pool] by (auto simp: mmr_def)
next
  show "mmr_score lam rel sim [] c = lam * rel c"
    by (simp add: mmr_score_def)
qed

lemma demo_mmr: "mmr 2 (1 / 2) demo_rel demo_sim [0, 1, 2] = [0, 2]"
  by (simp add: mmr_def mmr_score_def demo_rel_def demo_sim_def Let_def numeral_2_eq_2)

text \<open>With \<open>lambda = 1/2\<close> the second pick of the pool above is the third passage: the
  second one is too close to the first.\<close>

theorem mmr_is_greedy_selection_witness:
  "mmr 2 (1 / 2) demo_rel demo_sim [0, 1, 2] = [0, 2]
   \<and> greedy_pick (mmr_score (1 / 2) demo_rel demo_sim [0]) [1, 2] 2"
  using mmr_is_greedy_selection [of 2 "1 / 2" demo_rel demo_sim "[0, 1, 2]" 0,
          THEN conjunct1, THEN spec, of 1]
  unfolding demo_mmr by (simp add: remaining_after_def)


text \<open>
  C2. With \<open>lambda = 1\<close> the output is the pure relevance ranking of the pool, cut to
  \<open>k\<close> passages: in order of decreasing relevance, passages of equal relevance in pool
  order.
\<close>

theorem mmr_lambda_one_is_relevance_ranking:
  "mmr k 1 rel sim pool = take k (relevance_ranking rel pool)"
  by (simp add: mmr_def relevance_ranking_def mmr_select_lambda_one)

subsection \<open>A conversation turn\<close>

text \<open>A turn, from the question to the reply: the history of the thread with the question
  appended is the state of the node, the node retrieves for the question and calls the
  model, and the reply is appended and stored.\<close>

lemma chat_turn_eq:
  "chat_with_memory q (process_messages model vs) tid w =
     (case vs q 4 5 (8 / 10) of
        Inl e \<Rightarrow> Inl e
      | Inr results \<Rightarrow>
          (let request = SystemMessage (chat_prompt (py_join '' '' (map page_content results)))
                           # history w tid @ [HumanMessage q]
           in case model (length (llm_requests w)) request of
                Inl e \<Rightarrow> Inl e
              | Inr reply \<Rightarrow>
                  Inr (reply,
                       w\<lparr>llm_requests := llm_requests w @ [request],
                         checkpoints := (checkpoints w)
                           (tid \<mapsto> history w tid @ [HumanMessage q, AIMessage reply])\<rparr>)))"
  by (simp add: chat_with_memory_def app_invoke_def process_messages_def
      create_augmented_response_def latest_msg_def py_last_def model_invoke_def Let_def history_def
      split: sum.splits)

text \<open>
  C10. On a state with no message the last element is not read: the query is the empty
  string, the search is run for it and, when the search returns, the model is called with
  the system instruction alone.
\<close>

theorem create_augmented_response_empty_state:
  "latest_msg \<lparr>messages = []\<rparr> = Inr []
   \<and> create_augmented_response model \<lparr>messages = []\<rparr> vector_store w =
       (case vector_store [] 4 5 (8 / 10) of
          Inl e \<Rightarrow> Inl e
        | Inr results \<Rightarrow>
            model_invoke model
              [SystemMessage (chat_prompt (py_join '' '' (map page_content results)))] w)"
  by (simp add: create_augmented_response_def latest_msg_def split: sum.splits)




subsection \<open>The history of a session\<close>

lemma chat_turn_success:
  assumes "chat_with_memory q (process_messages model vs) tid w = Inr (r, w')"
  shows "\<exists>req. w' = w\<lparr>llm_requests := llm_requests w @ [req @ [HumanMessage q]],
                      checkpoints := (checkpoints w)
                        (tid \<mapsto> history w tid @ [HumanMessage q, AIMessage r])\<rparr>"
proof (cases "vs q 4 5 (8 / 10)")
  case (Inl e)
  then show ?thesis using assms by (simp add: chat_turn_eq)
next
  case (Inr results)
  let ?req = "SystemMessage (chat_prompt (py_join '' '' (map page_content results)))
                # history w tid"
  show ?thesis
  proof (cases "model (length (llm_requests w)) (?req @ [HumanMessage q])")
    case (Inl e)
    then show ?thesis using assms Inr by (simp add: chat_turn_eq)
  next
    case model: (Inr reply)
    then have "w' = w\<lparr>llm_requests := llm_requests w @ [?req @ [HumanMessage q]],
                      checkpoints := (checkpoints w)
                        (tid \<mapsto> history w tid @ [HumanMessage q, AIMessage r])\<rparr>"
      using assms Inr by (auto simp: chat_turn_eq)
    then show ?thesis by blast
  qed
qed

lemma history_after_turn:
  assumes "chat_with_memory q (process_messages model vs) tid w = Inr (r, w')"
  shows "history w' tid = history w tid @ [HumanMessage q, AIMessage r]"
    and "t \<noteq> tid \<Longrightarrow> history w' t = history w t"
  using chat_turn_success [OF assms] by (auto simp: history_def)

lemma chat_turns_history:
  "chat_turns (process_messages model vs) tid qs w = Inr (rs, w')
   \<Longrightarrow> length rs = length qs
       \<and> history w' tid = history w tid @ turn_messages qs rs
       \<and> (\<forall>t. t \<noteq> tid \<longrightarrow> history w' t = history w t)"
proof (induction qs arbitrary: w rs)
  case Nil
  then show ?case by simp
next
  case (Cons q qs)
  from Cons.prems obtain r w1 rs1 where
    turn: "chat_with_memory q (process_messages model vs) tid w = Inr (r, w1)" and
    rest: "chat_turns (process_messages model vs) tid qs w1 = Inr (rs1, w')" and
    rs: "rs = r # rs1"
    by (auto split: sum.splits)
  have IH: "length rs1 = length qs
       \<and> history w' tid = history w1 tid @ turn_messages qs rs1
       \<and> (\<forall>t. t \<noteq> tid \<longrightarrow> history w' t = history w1 t)"
    by (rule Cons.IH [OF rest])
  show ?case
    using IH history_after_turn [OF turn] rs by simp
qed

lemma alternating_turn_messages: "alternating (turn_messages qs rs)"
  by (induction qs rs rule: turn_messages.induct) simp_all

lemma length_turn_messages:
  "length rs = length qs \<Longrightarrow> length (turn_messages qs rs) = 2 * length qs"
  by (induction qs rs rule: turn_messages.induct) simp_all

lemma history_after_setup:
  "history (snd (setup_chat_workflow model vs w)) tid = []"
  by (simp add: setup_chat_workflow_def history_def)

text \<open>A history built by turns from a new thread holds no system message.\<close>

lemma turn_messages_no_system: "\<forall>m\<in>set (turn_messages qs rs). \<not> is_system m"
  by (induction qs rs rule: turn_messages.induct) simp_all

lemma history_built_by_turns_no_system:
  assumes "chat_turns (process_messages model vs) tid qs w = Inr (rs, w')"
      and "\<forall>m\<in>set (history w tid). \<not> is_system m"
  shows "\<forall>m\<in>set (history w' tid). \<not> is_system m"
  using chat_turns_history [OF assms(1)] assms(2) turn_messages_no_system [of qs rs]
  by auto

text \<open>
  C4. After \<open>N\<close> turns made one after the other on one thread, all of them successful,
  the stored history of the thread is its history before them followed by the question
  and the reply of each turn, in the order of the turns; from a new thread that is
  \<open>2N\<close> messages, user and assistant in turn.
\<close>

theorem session_history_after_turns:
  assumes "chat_turns (process_messages model vs) tid qs w = Inr (rs, w')"
  shows "length rs = length qs
       \<and> history w' tid = history w tid @ turn_messages qs rs
       \<and> (history w tid = []
            \<longrightarrow> length (history w' tid) = 2 * length qs \<and> alternating (history w' tid))"
  using chat_turns_history [OF assms]
  by (simp add: alternating_turn_messages length_turn_messages)

lemma two_turns:
  "chat_turns (process_messages answering_model demo_store) ''user_session_1''
      [''Who wrote it?'', ''When?''] (snd (setup_chat_workflow answering_model demo_store world0))
     = Inr ([''Ann wrote it.'', ''In January.''], world_two_turns)"
  by (simp add: chat_turn_eq demo_store_def answering_model_def history_def world0_def
      world_two_turns_def setup_chat_workflow_def)

theorem session_history_after_turns_witness:
  "history world_two_turns ''user_session_1''
     = [HumanMessage ''Who wrote it?'', AIMessage ''Ann wrote it.'',
        HumanMessage ''When?'', AIMessage ''In January.'']
   \<and> length (history world_two_turns ''user_session_1'') = 2 * 2
   \<and> alternating (history world_two_turns ''user_session_1'')"
  using session_history_after_turns [where model = answering_model and vs = demo_store
      and tid = "''user_session_1''" and qs = "[''Who wrote it?'', ''When?'']"
      and w = "snd (setup_chat_workflow answering_model demo_store world0)"
      and rs = "[''Ann wrote it.'', ''In January.'']" and w' = world_two_turns, OF two_turns]
  by (simp add: history_after_setup)

subsection \<open>The interactive loop\<close>



lemma chat_loop_raise:
  "lower q \<noteq> ''exit''
   \<Longrightarrow> chat_with_memory q app tid (w\<lparr>stdout := stdout w @ input_prompt\<rparr>) = Inl e
   \<Longrightarrow> chat_loop app tid (q # rest) w = Inl e"
  by (simp add: Let_def)









end
